theory Spec2Isabelle
  imports Main "HOL-Library.Multiset" "HOL-Library.Char_ord" "HOL-Library.List_Lexorder"
begin

section \<open>Python strings\<close>

text \<open>
  The program of \<^verbatim>\<open>calendar.py\<close> works on Python \<^verbatim>\<open>str\<close> values.  A string is modelled
  as a \<^typ>\<open>string\<close>; text outside ASCII is carried as its UTF-8 bytes.  The functions below
  that inspect characters (\<^verbatim>\<open>strip\<close>, \<^verbatim>\<open>lower\<close>, \<^verbatim>\<open>split\<close>, \<^verbatim>\<open>int\<close>) follow Python on ASCII
  text and treat every byte above 127 as an ordinary character that is neither a space,
  nor a digit, nor an upper-case letter.
\<close>

text \<open>\<^verbatim>\<open>str.isspace\<close> on one ASCII character: TAB, LF, VT, FF, CR, FS, GS, RS, US and the blank.\<close>

definition is_space :: "char \<Rightarrow> bool" where
  "is_space c = (c \<in> set [CHR 0x09, CHR 0x0A, CHR 0x0B, CHR 0x0C, CHR 0x0D,
                            CHR 0x1C, CHR 0x1D, CHR 0x1E, CHR 0x1F, CHR 0x20])"

text \<open>\<^verbatim>\<open>s.strip()\<close>: leading and trailing white space removed.\<close>

definition strip :: "string \<Rightarrow> string" where
  "strip s = rev (dropWhile is_space (rev (dropWhile is_space s)))"

text \<open>\<^verbatim>\<open>s.lower()\<close>: the 26 ASCII capitals are mapped to their small letters.\<close>

definition lower_char :: "char \<Rightarrow> char" where
  "lower_char c =
     (case map_of (zip ''ABCDEFGHIJKLMNOPQRSTUVWXYZ'' ''abcdefghijklmnopqrstuvwxyz'') c of
        Some d \<Rightarrow> d
      | None \<Rightarrow> c)"

definition lower :: "string \<Rightarrow> string" where
  "lower s = map lower_char s"

text \<open>The prefix test used by the substring search.\<close>

fun starts_with :: "string \<Rightarrow> string \<Rightarrow> bool" where
  "starts_with [] s = True"
| "starts_with (p # ps) [] = False"
| "starts_with (p # ps) (c # cs) = (p = c \<and> starts_with ps cs)"

text \<open>\<^verbatim>\<open>sub in s\<close> for two strings: \<open>sub\<close> occurs in \<open>s\<close> as a contiguous piece.\<close>

fun py_in :: "string \<Rightarrow> string \<Rightarrow> bool" where
  "py_in sub [] = (sub = [])"
| "py_in sub (c # cs) = (starts_with sub (c # cs) \<or> py_in sub cs)"

text \<open>\<^verbatim>\<open>s.split(sep)\<close> for a one-character separator: every separator cuts, empty pieces are
  kept, and the empty string gives one empty piece.\<close>

fun split_on :: "char \<Rightarrow> string \<Rightarrow> string list" where
  "split_on sep [] = [[]]"
| "split_on sep (c # cs) =
     (if c = sep then [] # split_on sep cs
      else (case split_on sep cs of
              [] \<Rightarrow> [[c]]
            | p # ps \<Rightarrow> (c # p) # ps))"

text \<open>\<^verbatim>\<open>s.split()\<close> without a separator: the maximal runs of non-space characters.\<close>

fun split_ws :: "string \<Rightarrow> string list" where
  "split_ws [] = []"
| "split_ws (c # cs) =
     (if is_space c then split_ws cs
      else (case cs of
              [] \<Rightarrow> [[c]]
            | d # ds \<Rightarrow>
                if is_space d then [c] # split_ws cs
                else (case split_ws cs of
                        [] \<Rightarrow> [[c]]
                      | w # ws \<Rightarrow> (c # w) # ws)))"

subsection \<open>Exceptions\<close>

datatype py_error = ValueError | AttributeError | KeyError

subsection \<open>The integer constructor\<close>

text \<open>
  \<^verbatim>\<open>int(s)\<close> for a string, base ten: white space around the literal is skipped (the C
  locale's six space characters: TAB, LF, VT, FF, CR and the blank), one sign may come
  first, then decimal digits, where a single underscore may stand between two digits.
  Anything else raises \<^verbatim>\<open>ValueError\<close>.  The interpreter's configurable cap on the length of
  a decimal literal (thousands of digits) is left out.
\<close>

definition is_cspace :: "char \<Rightarrow> bool" where
  "is_cspace c = (c \<in> set [CHR 0x09, CHR 0x0A, CHR 0x0B, CHR 0x0C, CHR 0x0D, CHR 0x20])"

definition digit_val :: "char \<Rightarrow> nat option" where
  "digit_val c = map_of (zip ''0123456789'' [0, 1, 2, 3, 4, 5, 6, 7, 8, 9]) c"

text \<open>\<open>scan_digits prev acc s\<close>: \<open>prev\<close> tells whether the character before was a digit;
  an underscore and the end of the literal are allowed only after a digit.\<close>

fun scan_digits :: "bool \<Rightarrow> nat \<Rightarrow> string \<Rightarrow> nat option" where
  "scan_digits prev acc [] = (if prev then Some acc else None)"
| "scan_digits prev acc (c # cs) =
     (if c = CHR ''_'' then (if prev then scan_digits False acc cs else None)
      else (case digit_val c of
              None \<Rightarrow> None
            | Some v \<Rightarrow> scan_digits True (acc * 10 + v) cs))"

definition py_int :: "string \<Rightarrow> py_error + int" where
  "py_int s =
     (let t = rev (dropWhile is_cspace (rev (dropWhile is_cspace s)));
          sign_rest = (case t of
                         [] \<Rightarrow> (1, [])
                       | c # cs \<Rightarrow>
                           if c = CHR ''-'' then (- 1, cs)
                           else if c = CHR ''+'' then (1, cs)
                           else (1, c # cs))
      in case scan_digits False 0 (snd sign_rest) of
           None \<Rightarrow> Inl ValueError
         | Some n \<Rightarrow> Inr (fst sign_rest * int n))"

section \<open>Cell values\<close>

text \<open>
  A value held in a table cell, or passed where the program tests \<^verbatim>\<open>pd.isna\<close>: either a
  missing value (\<^verbatim>\<open>None\<close>, \<^verbatim>\<open>NaN\<close>), or a value that is not missing, given by the text that
  \<^verbatim>\<open>str\<close> renders it to.  For a Python string that text is the string itself.
\<close>

datatype cell = NA | Val string

section \<open>Time Resolver\<close>

text \<open>
  The body of \<^verbatim>\<open>parse_time_minutes\<close> inside its \<^verbatim>\<open>try\<close>: \<open>Inl\<close> is an exception raised by
  \<^verbatim>\<open>int\<close>, \<open>Inr None\<close> is one of the \<^verbatim>\<open>return None\<close> statements.  Both operands of
  \<^verbatim>\<open>int(parts[0]) * 60 + int(parts[1])\<close> are evaluated left to right.
\<close>

definition parse_time_body :: "cell \<Rightarrow> py_error + int option" where
  "parse_time_body time_str =
     (case time_str of
        NA \<Rightarrow> Inr None
      | Val raw \<Rightarrow>
          (let s = strip raw in
           if CHR '':'' \<in> set s then
             (let parts = split_on CHR '':'' s in
              if length parts \<ge> 2 then
                (case py_int (parts ! 0) of
                   Inl e \<Rightarrow> Inl e
                 | Inr h \<Rightarrow>
                     (case py_int (parts ! 1) of
                        Inl e \<Rightarrow> Inl e
                      | Inr m \<Rightarrow> Inr (Some (h * 60 + m))))
              else Inr None)
           else Inr None))"

text \<open>\<^verbatim>\<open>parse_time_minutes\<close>: the bare \<^verbatim>\<open>except\<close> turns every exception into \<^verbatim>\<open>None\<close>.\<close>

definition parse_time_minutes :: "cell \<Rightarrow> int option" where
  "parse_time_minutes time_str =
     (case parse_time_body time_str of
        Inl e \<Rightarrow> None
      | Inr r \<Rightarrow> r)"

section \<open>Day Ordering\<close>

text \<open>The dictionary literal \<^verbatim>\<open>day_order\<close> of \<^verbatim>\<open>sort_days\<close>; its keys are pairwise different.\<close>

definition day_order :: "(string \<times> nat) list" where
  "day_order =
     [(''monday'', 1), (''mon'', 1), (''lundi'', 1), (''lun'', 1),
      (''tuesday'', 2), (''tue'', 2), (''mardi'', 2), (''mar'', 2),
      (''wednesday'', 3), (''wed'', 3), (''mercredi'', 3), (''mer'', 3),
      (''thursday'', 4), (''thu'', 4), (''jeudi'', 4), (''jeu'', 4),
      (''friday'', 5), (''fri'', 5), (''vendredi'', 5), (''ven'', 5),
      (''saturday'', 6), (''sat'', 6), (''samedi'', 6), (''sam'', 6),
      (''sunday'', 7), (''sun'', 7), (''dimanche'', 7), (''dim'', 7)]"

text \<open>The test of the first loop of \<^verbatim>\<open>sort_days\<close>: the value is appended to
  \<^verbatim>\<open>filtered_days\<close> exactly when it holds.\<close>

definition keep_day :: "cell \<Rightarrow> bool" where
  "keep_day d =
     (case d of
        NA \<Rightarrow> False
      | Val s \<Rightarrow> (let d_str = strip s in d_str \<noteq> [] \<and> lower d_str \<noteq> ''nan''))"

definition get_day_order_key :: "cell \<Rightarrow> nat" where
  "get_day_order_key day_str =
     (case day_str of
        NA \<Rightarrow> 99
      | Val s \<Rightarrow>
          if strip s = [] then 99
          else (case split_ws (lower (strip s)) of
                  [] \<Rightarrow> 99
                | p # ps \<Rightarrow> (case map_of day_order p of Some r \<Rightarrow> r | None \<Rightarrow> 99)))"

text \<open>\<^verbatim>\<open>sorted(filtered_days, key=get_day_order_key)\<close>.  Python's \<^verbatim>\<open>sorted\<close> is a stable sort;
  \<^const>\<open>sort_key\<close> is the stable insertion sort of the list library.\<close>

definition sort_days :: "cell list \<Rightarrow> cell list" where
  "sort_days days_list = sort_key get_day_order_key (filter keep_day days_list)"

section \<open>Record Normalizer\<close>

text \<open>
  A pandas \<^verbatim>\<open>DataFrame\<close>: the length of its index and its columns in order, each a label
  with its values.  Labels may repeat, as pandas allows.  A label is given by the text
  \<^verbatim>\<open>str\<close> renders it to.
\<close>

record dataframe =
  nrows :: nat
  cols :: "(string \<times> cell list) list"

definition labels :: "dataframe \<Rightarrow> string list" where
  "labels df = map fst (cols df)"


text \<open>The key \<^verbatim>\<open>"CHR \<endash> Chronos"\<close>; the dash is U+2013, three bytes in UTF-8.\<close>

definition chronos :: string where
  "chronos = ''CHR '' @ [CHR 0xE2, CHR 0x80, CHR 0x93] @ '' Chronos''"

text \<open>The \<^verbatim>\<open>if\<close>/\<^verbatim>\<open>elif\<close> chain in the first loop of \<^verbatim>\<open>normalize_dataframe\<close>: the standard
  name a column label is mapped to, \<open>None\<close> when no branch is taken.\<close>

definition classify :: "string \<Rightarrow> string option" where
  "classify col =
     (let col_str = strip col; col_lower = lower col_str in
      if py_in ''date'' col_lower \<or> col_lower = ''day'' then Some ''day''
      else if py_in ''activity'' col_lower \<or> py_in ''title'' col_lower then Some ''title''
      else if py_in ''start'' col_lower then Some ''start''
      else if py_in ''end'' col_lower then Some ''end''
      else if py_in ''archetype'' col_lower then Some ''archetype''
      else if py_in ''note'' col_lower \<or> py_in ''detail'' col_lower \<or> py_in ''exam'' col_lower
        then Some ''notes''
      else None)"

text \<open>The loop that fills the dictionary \<^verbatim>\<open>column_mapping\<close>, keyed by the column label.\<close>

fun build_mapping :: "string list \<Rightarrow> (string \<rightharpoonup> string) \<Rightarrow> (string \<rightharpoonup> string)" where
  "build_mapping [] m = m"
| "build_mapping (col # rest) m =
     build_mapping rest (case classify col of Some f \<Rightarrow> m(col \<mapsto> f) | None \<Rightarrow> m)"

definition column_mapping :: "dataframe \<Rightarrow> (string \<rightharpoonup> string)" where
  "column_mapping df = build_mapping (labels df) Map.empty"

text \<open>\<^verbatim>\<open>df.rename(columns=column_mapping)\<close>: every column whose label is a key gets the new
  label; position and values stay, and nothing is merged when two columns get one label.\<close>

definition rename_columns :: "(string \<rightharpoonup> string) \<Rightarrow> dataframe \<Rightarrow> dataframe" where
  "rename_columns m df =
     df\<lparr>cols := map (\<lambda>c. (case m (fst c) of Some n \<Rightarrow> n | None \<Rightarrow> fst c, snd c)) (cols df)\<rparr>"

text \<open>\<^verbatim>\<open>if col not in df.columns: df[col] = v\<close>: a new last column holding \<open>v\<close> in every row.\<close>

definition ensure_column :: "string \<Rightarrow> string \<Rightarrow> dataframe \<Rightarrow> dataframe" where
  "ensure_column col v df =
     (if col \<notin> set (labels df)
      then df\<lparr>cols := cols df @ [(col, replicate (nrows df) (Val v))]\<rparr>
      else df)"

text \<open>\<^verbatim>\<open>.fillna("").astype(str).str.strip()\<close> on one value.\<close>

definition clean_cell :: "cell \<Rightarrow> cell" where
  "clean_cell c = (case c of NA \<Rightarrow> Val (strip []) | Val s \<Rightarrow> Val (strip s))"

text \<open>
  The loop \<^verbatim>\<open>for col in df.columns: df[col] = df[col].fillna("").astype(str).str.strip()\<close>.
  \<^verbatim>\<open>df[col]\<close> is a \<^verbatim>\<open>Series\<close> when one column carries the label; when several do it is a
  \<^verbatim>\<open>DataFrame\<close>, which has no \<^verbatim>\<open>.str\<close>, and the attribute access raises.
\<close>

fun clean_loop :: "string list \<Rightarrow> dataframe \<Rightarrow> py_error + dataframe" where
  "clean_loop [] df = Inr df"
| "clean_loop (col # rest) df =
     (case filter (\<lambda>c. fst c = col) (cols df) of
        [] \<Rightarrow> Inl KeyError
      | [c] \<Rightarrow>
          clean_loop rest
            (df\<lparr>cols := map (\<lambda>c. if fst c = col then (fst c, map clean_cell (snd c)) else c)
                            (cols df)\<rparr>)
      | c # c' # cs \<Rightarrow> Inl AttributeError)"

text \<open>\<^verbatim>\<open>normalize_dataframe\<close>.  The two messages written to the sidebar at its end do not
  enter the returned table and are left out.\<close>

definition normalize_dataframe :: "dataframe \<Rightarrow> py_error + dataframe" where
  "normalize_dataframe df0 =
     (let df1 = rename_columns (column_mapping df0) df0;
          df2 = fold (\<lambda>col df. ensure_column col [] df) [''day'', ''title'', ''start'', ''end''] df1;
          df3 = ensure_column ''archetype'' chronos df2;
          df4 = ensure_column ''notes'' [] df3
      in clean_loop (labels df4) df4)"

section \<open>Events\<close>

text \<open>
  The Grid Builder and the Export Table Builder read six labels of each row of the
  normalized table: \<^verbatim>\<open>day\<close>, \<^verbatim>\<open>title\<close>, \<^verbatim>\<open>start\<close>, \<^verbatim>\<open>end\<close>, \<^verbatim>\<open>archetype\<close>, \<^verbatim>\<open>notes\<close>.  An event is
  a row seen through these labels.
\<close>

record event =
  ev_day :: string
  ev_title :: string
  ev_start :: string
  ev_end :: string
  ev_archetype :: string
  ev_notes :: string




text \<open>\<^verbatim>\<open>event[f]\<close> for a label \<open>f\<close>; \<open>None\<close> for a label that is not one of the six.\<close>

definition ev_get :: "event \<Rightarrow> string \<Rightarrow> string option" where
  "ev_get e f =
     (if f = ''day'' then Some (ev_day e)
      else if f = ''title'' then Some (ev_title e)
      else if f = ''start'' then Some (ev_start e)
      else if f = ''end'' then Some (ev_end e)
      else if f = ''archetype'' then Some (ev_archetype e)
      else if f = ''notes'' then Some (ev_notes e)
      else None)"

text \<open>\<^verbatim>\<open>df[df["day"].str.strip().str.lower() == day_str.lower()]\<close> with
  \<^verbatim>\<open>day_str = str(day).strip()\<close>: the rows of the day, in row order.\<close>

definition day_matches :: "string \<Rightarrow> event \<Rightarrow> bool" where
  "day_matches day e = (lower (strip (ev_day e)) = lower (strip day))"

definition day_events :: "event list \<Rightarrow> string \<Rightarrow> event list" where
  "day_events evs day = filter (day_matches day) evs"

section \<open>Grid Builder\<close>

text \<open>Python's truth value of an \<^verbatim>\<open>int\<close> or \<^verbatim>\<open>None\<close>: \<^verbatim>\<open>None\<close> and \<^verbatim>\<open>0\<close> are false.\<close>

definition truthy :: "int option \<Rightarrow> bool" where
  "truthy v = (case v of None \<Rightarrow> False | Some n \<Rightarrow> n \<noteq> 0)"

text \<open>The test \<^verbatim>\<open>start_min and end_min and start_min <= slot < end_min\<close> of the inner loop
  of \<^verbatim>\<open>create_calendar_heatmap\<close>, on one row.\<close>

definition occupies_slot :: "event \<Rightarrow> int \<Rightarrow> bool" where
  "occupies_slot e slot =
     (let start_min = parse_time_minutes (Val (ev_start e));
          end_min = parse_time_minutes (Val (ev_end e))
      in truthy start_min \<and> truthy end_min \<and>
         (case start_min of None \<Rightarrow> False | Some s \<Rightarrow>
          case end_min of None \<Rightarrow> False | Some t \<Rightarrow> s \<le> slot \<and> slot < t))"

definition matching_events :: "event list \<Rightarrow> string \<Rightarrow> int \<Rightarrow> event list" where
  "matching_events evs day slot = filter (\<lambda>e. occupies_slot e slot) (day_events evs day)"

text \<open>\<^verbatim>\<open>range(start, stop, step)\<close> for a positive step.\<close>

definition py_range :: "int \<Rightarrow> int \<Rightarrow> int \<Rightarrow> int list" where
  "py_range start stop step =
     map (\<lambda>k. start + int k * step) [0..<nat ((stop - start + step - 1) div step)]"

definition slots :: "int list" where
  "slots = py_range (6 * 60) (23 * 60) 30"

text \<open>\<^verbatim>\<open>sorted(set(df["archetype"].unique().tolist() + ["(empty)"]))\<close>.  Python orders strings
  by code point, which is the order of their UTF-8 bytes.\<close>

definition all_archetypes :: "event list \<Rightarrow> string list" where
  "all_archetypes evs = sort (remdups (map ev_archetype evs @ [''(empty)'']))"

definition arch_to_idx :: "event list \<Rightarrow> (string \<rightharpoonup> nat)" where
  "arch_to_idx evs = map_of (zip (all_archetypes evs) [0..<length (all_archetypes evs)])"

text \<open>
  One cell: what is appended to \<^verbatim>\<open>row_z\<close>, and the event that the entries of \<^verbatim>\<open>row_t\<close> and
  \<^verbatim>\<open>row_h\<close> are rendered from (\<open>None\<close> for the free-time texts).  A dictionary lookup that
  misses raises \<^verbatim>\<open>KeyError\<close>.
\<close>

definition build_cell :: "event list \<Rightarrow> int \<Rightarrow> string \<Rightarrow> py_error + (nat \<times> event option)" where
  "build_cell evs slot day =
     (case matching_events evs day slot of
        [] \<Rightarrow> (case arch_to_idx evs ''(empty)'' of
                 None \<Rightarrow> Inl KeyError
               | Some i \<Rightarrow> Inr (i, None))
      | e # es \<Rightarrow> (case arch_to_idx evs (ev_archetype e) of
                     None \<Rightarrow> Inl KeyError
                   | Some i \<Rightarrow> Inr (i, Some e)))"

text \<open>A loop that appends one result per element and stops at the first exception.\<close>

fun collect :: "('a \<Rightarrow> py_error + 'b) \<Rightarrow> 'a list \<Rightarrow> py_error + 'b list" where
  "collect f [] = Inr []"
| "collect f (x # xs) =
     (case f x of
        Inl e \<Rightarrow> Inl e
      | Inr y \<Rightarrow> (case collect f xs of Inl e \<Rightarrow> Inl e | Inr ys \<Rightarrow> Inr (y # ys)))"

text \<open>The data handed to the figure: the slot starts (the \<open>y\<close> labels are their
  \<^verbatim>\<open>HH:MM\<close> renderings), the days, the matrix \<open>z\<close>, and the matrix of chosen events.\<close>

record grid =
  grid_slots :: "int list"
  grid_days :: "string list"
  grid_z :: "nat list list"
  grid_events :: "event option list list"

text \<open>\<^verbatim>\<open>create_calendar_heatmap\<close>: the warnings issued and the value returned; \<open>Inr None\<close> is
  \<^verbatim>\<open>return None\<close>.  A normalized table has columns, so \<^verbatim>\<open>df.empty\<close> says it has no row.\<close>

definition create_calendar_heatmap ::
  "event list \<Rightarrow> string list \<Rightarrow> string list \<times> (py_error + grid option)" where
  "create_calendar_heatmap evs days =
     (if evs = [] then ([''No data to display''], Inr None)
      else ([],
        (case collect (\<lambda>slot. collect (build_cell evs slot) days) slots of
           Inl e \<Rightarrow> Inl e
         | Inr rows \<Rightarrow>
             Inr (Some \<lparr>grid_slots = slots, grid_days = days,
                        grid_z = map (map fst) rows,
                        grid_events = map (map snd) rows\<rparr>))))"

section \<open>Export Table Builder\<close>

text \<open>One data row of the sheet, columns 1 to 5; \<open>None\<close> is a cell that is not written.\<close>

record export_row =
  x_day :: "string option"
  x_time :: "string option"
  x_activity :: "string option"
  x_archetype :: "string option"
  x_notes :: "string option"

definition free_row :: "string \<Rightarrow> export_row" where
  "free_row day =
     \<lparr>x_day = Some day, x_time = None, x_activity = Some ''Free time'',
      x_archetype = None, x_notes = None\<rparr>"

text \<open>The notes of a row of a normalized table are a string, so \<^verbatim>\<open>pd.notna\<close> holds and
  column 5 is written.\<close>

definition event_row :: "string \<Rightarrow> event \<Rightarrow> export_row" where
  "event_row day e =
     \<lparr>x_day = Some day, x_time = Some (ev_start e @ ''-'' @ ev_end e),
      x_activity = Some (ev_title e), x_archetype = Some (ev_archetype e),
      x_notes = Some (ev_notes e)\<rparr>"

text \<open>The data loop of \<^verbatim>\<open>create_excel_export\<close>.  Each pass writes one sheet row and adds one
  to the counter \<^verbatim>\<open>row\<close>, which starts at 4: the list holds the sheet rows 4, 5, ... in
  order.\<close>

fun create_excel_export :: "event list \<Rightarrow> string list \<Rightarrow> export_row list" where
  "create_excel_export evs [] = []"
| "create_excel_export evs (day # rest) =
     (if day_events evs day = [] then [free_row day]
      else map (event_row day) (day_events evs day))
     @ create_excel_export evs rest"

section \<open>The rules in the words of the specification\<close>

text \<open>
  Day Ordering: a label is ranked by lower-casing it and looking its first token between
  white space up in the weekday table; a label without token, or with a token that the
  table does not have, has rank 99.
\<close>

definition day_rank :: "string \<Rightarrow> nat" where
  "day_rank s =
     (case split_ws (lower s) of
        [] \<Rightarrow> 99
      | tok # rest \<Rightarrow> (case map_of day_order tok of Some r \<Rightarrow> r | None \<Rightarrow> 99))"

text \<open>
  Record Normalizer: the keyword rules of the six standard fields, in their order of
  priority.  ``Contains'' is the substring test without regard to case; the label
  ``equals day'' when that is all it reads, without regard to case and to white space
  around it.  A label goes to the first field whose rule holds.
\<close>

definition ci_contains :: "string \<Rightarrow> string \<Rightarrow> bool" where
  "ci_contains kw label = py_in kw (lower label)"

definition keyword_rules :: "(string \<times> (string \<Rightarrow> bool)) list" where
  "keyword_rules =
     [(''day'', \<lambda>l. ci_contains ''date'' l \<or> lower (strip l) = ''day''),
      (''title'', \<lambda>l. ci_contains ''activity'' l \<or> ci_contains ''title'' l),
      (''start'', \<lambda>l. ci_contains ''start'' l),
      (''end'', \<lambda>l. ci_contains ''end'' l),
      (''archetype'', \<lambda>l. ci_contains ''archetype'' l),
      (''notes'', \<lambda>l. ci_contains ''note'' l \<or> ci_contains ''detail'' l \<or> ci_contains ''exam'' l)]"

definition first_matching_rule :: "string \<Rightarrow> string option" where
  "first_matching_rule l = map_option fst (find (\<lambda>r. snd r l) keyword_rules)"

section \<open>Auxiliary notions\<close>

text \<open>The cell that \<^const>\<open>build_cell\<close> returns, written with the first row that is of the
  day and passes the slot test; the lemma \<open>build_cell_total\<close> relates the two.\<close>

definition the_cell :: "event list \<Rightarrow> int \<Rightarrow> string \<Rightarrow> nat \<times> event option" where
  "the_cell evs slot day =
     (case find (\<lambda>e. day_matches day e \<and> occupies_slot e slot) evs of
        None \<Rightarrow> (the (arch_to_idx evs ''(empty)''), None)
      | Some e \<Rightarrow> (the (arch_to_idx evs (ev_archetype e)), Some e))"

text \<open>The label a column carries after the renaming, the text a value is cleaned to, the
  six standard labels with the value a column added for them holds, and the loop that
  adds the missing ones.\<close>

definition target_label :: "string \<Rightarrow> string" where
  "target_label l = (case classify l of Some n \<Rightarrow> n | None \<Rightarrow> l)"


definition canonical_defaults :: "(string \<times> string) list" where
  "canonical_defaults =
     [(''day'', []), (''title'', []), (''start'', []), (''end'', []),
      (''archetype'', chronos), (''notes'', [])]"

definition canonical_fields :: "string list" where
  "canonical_fields = map fst canonical_defaults"


definition ensure_all :: "(string \<times> string) list \<Rightarrow> dataframe \<Rightarrow> dataframe" where
  "ensure_all fs df = fold (\<lambda>p d. ensure_column (fst p) (snd p) d) fs df"

text \<open>The columns of a table after the renaming, and the columns added after them for
  the standard labels that the renaming did not produce.\<close>

definition renamed_cols :: "dataframe \<Rightarrow> (string \<times> cell list) list" where
  "renamed_cols df = map (\<lambda>c. (target_label (fst c), snd c)) (cols df)"

definition missing_cols :: "dataframe \<Rightarrow> (string \<times> cell list) list" where
  "missing_cols df =
     map (\<lambda>p. (fst p, replicate (nrows df) (Val (snd p))))
         (filter (\<lambda>p. fst p \<notin> set (map target_label (labels df))) canonical_defaults)"

section \<open>Example inputs\<close>

text \<open>A night's sleep entered from midnight to eight o'clock.\<close>

definition midnight_event :: event where
  "midnight_event =
     \<lparr>ev_day = ''Monday'', ev_title = ''Sleep'', ev_start = ''00:00'', ev_end = ''08:00'',
      ev_archetype = ''HYP'', ev_notes = []\<rparr>"

text \<open>A run on the same day from six to seven o'clock, inside that night's sleep.\<close>

definition run_event :: event where
  "run_event =
     \<lparr>ev_day = ''Monday'', ev_title = ''Run'', ev_start = ''06:00'', ev_end = ''07:00'',
      ev_archetype = ''HEL'', ev_notes = []\<rparr>"

text \<open>An entry whose times are not clock times, and two entries that overlap from 08:30
  to 09:00 on the same day.\<close>

definition untimed_event :: event where
  "untimed_event =
     \<lparr>ev_day = ''Monday'', ev_title = ''Reading'', ev_start = ''soon'', ev_end = ''later'',
      ev_archetype = ''MNE'', ev_notes = ''when possible''\<rparr>"

definition lesson_event :: event where
  "lesson_event =
     \<lparr>ev_day = ''Monday'', ev_title = ''Lesson'', ev_start = ''08:00'', ev_end = ''09:00'',
      ev_archetype = ''HEL'', ev_notes = []\<rparr>"

definition call_event :: event where
  "call_event =
     \<lparr>ev_day = ''monday '', ev_title = ''Call'', ev_start = ''08:30'', ev_end = ''10:00'',
      ev_archetype = ''ANA'', ev_notes = []\<rparr>"

text \<open>A table with a padded header, a missing value, a blank value and a column that no
  keyword rule matches; and a table with two columns that the rules send to \<^verbatim>\<open>notes\<close>.\<close>

definition room_table :: dataframe where
  "room_table =
     \<lparr>nrows = 2,
      cols = [('' Date '', [Val '' Monday '', NA]),
              (''Activity'', [Val ''Lesson'', Val ''  '']),
              (''Room'', [Val ''B12 '', Val ''C3''])]\<rparr>"

definition room_normalized :: dataframe where
  "room_normalized =
     \<lparr>nrows = 2,
      cols = [(''day'', [Val ''Monday'', Val []]),
              (''title'', [Val ''Lesson'', Val []]),
              (''Room'', [Val ''B12'', Val ''C3'']),
              (''start'', [Val [], Val []]),
              (''end'', [Val [], Val []]),
              (''archetype'', [Val chronos, Val chronos]),
              (''notes'', [Val [], Val []])]\<rparr>"

definition notes_table :: dataframe where
  "notes_table =
     \<lparr>nrows = 1,
      cols = [(''Day'', [Val ''Monday'']),
              (''Notes'', [Val ''bring book'']),
              (''Details'', [Val ''room 4''])]\<rparr>"

section \<open>Properties of the Time Resolver\<close>

lemma split_on_length: "length (split_on sep s) = Suc (length (filter (\<lambda>c. c = sep) s))"
  by (induction s) (auto split: list.splits)

lemma split_on_two_parts: "(2 \<le> length (split_on sep s)) = (sep \<in> set s)"
proof -
  have "(filter (\<lambda>c. c = sep) s \<noteq> []) = (sep \<in> set s)"
    by (auto simp: filter_empty_conv)
  then show ?thesis
    by (cases "filter (\<lambda>c. c = sep) s") (simp_all add: split_on_length)
qed

lemma parse_time_minutes_parts:
  "parse_time_minutes (Val s) =
     (case split_on CHR '':'' (strip s) of
        h # m # extra \<Rightarrow>
          (case py_int h of
             Inl e \<Rightarrow> None
           | Inr a \<Rightarrow> (case py_int m of Inl e \<Rightarrow> None | Inr b \<Rightarrow> Some (a * 60 + b)))
      | _ \<Rightarrow> None)"
proof (cases "CHR '':'' \<in> set (strip s)")
  case True
  then have "2 \<le> length (split_on CHR '':'' (strip s))"
    by (simp add: split_on_two_parts)
  then obtain h m extra where "split_on CHR '':'' (strip s) = h # m # extra"
    by (cases "split_on CHR '':'' (strip s)"; cases "tl (split_on CHR '':'' (strip s))") auto
  with True show ?thesis
    by (simp add: parse_time_minutes_def parse_time_body_def split: sum.splits)
next
  case False
  then have "\<not> 2 \<le> length (split_on CHR '':'' (strip s))"
    by (simp add: split_on_two_parts)
  then have "case split_on CHR '':'' (strip s) of h # m # extra \<Rightarrow> False | _ \<Rightarrow> True"
    by (auto split: list.splits)
  with False show ?thesis
    by (auto simp add: parse_time_minutes_def parse_time_body_def split: list.splits)
qed

text \<open>
  Claim C3.  \<^verbatim>\<open>parse_time_minutes\<close> returns \<^verbatim>\<open>None\<close> for a missing value.  For a text it trims
  it and asks for a colon in it, which is the same as asking for two or more pieces
  between colons; when the first two pieces are accepted by \<^verbatim>\<open>int\<close> as \<open>a\<close> and \<open>b\<close> the
  result is \<open>a * 60 + b\<close>, whatever pieces follow; a text without colon, or a piece that
  \<^verbatim>\<open>int\<close> rejects, gives \<^verbatim>\<open>None\<close>.  The exception of \<^verbatim>\<open>int\<close> ends as that \<^verbatim>\<open>None\<close>: the function
  has a value on every input.  \<^verbatim>\<open>"08:00"\<close> and \<^verbatim>\<open>"08:00:00"\<close> give 480; \<^verbatim>\<open>"8"\<close>, the empty
  and the blank text, \<^verbatim>\<open>"nan"\<close> and \<^verbatim>\<open>"ab:cd"\<close> give \<^verbatim>\<open>None\<close>.
\<close>

theorem parse_time_minutes_rule:
  "parse_time_minutes NA = None \<and>
   parse_time_minutes (Val s) =
     (if CHR '':'' \<in> set (strip s) then
        (case split_on CHR '':'' (strip s) of
           h # m # extra \<Rightarrow>
             (case py_int h of
                Inl e \<Rightarrow> None
              | Inr a \<Rightarrow> (case py_int m of Inl e \<Rightarrow> None | Inr b \<Rightarrow> Some (a * 60 + b)))
         | _ \<Rightarrow> None)
      else None) \<and>
   (CHR '':'' \<in> set (strip s)) = (2 \<le> length (split_on CHR '':'' (strip s))) \<and>
   parse_time_minutes (Val ''08:00'') = Some 480 \<and>
   parse_time_minutes (Val ''08:00:00'') = Some 480 \<and>
   parse_time_minutes (Val ''8'') = None \<and>
   parse_time_minutes (Val '''') = None \<and>
   parse_time_minutes (Val ''   '') = None \<and>
   parse_time_minutes (Val ''nan'') = None \<and>
   parse_time_minutes (Val ''ab:cd'') = None"
proof -
  have a: "parse_time_minutes NA = None"
    by (simp add: parse_time_minutes_def parse_time_body_def)
  have b: "parse_time_minutes (Val s) =
     (if CHR '':'' \<in> set (strip s) then
        (case split_on CHR '':'' (strip s) of
           h # m # extra \<Rightarrow>
             (case py_int h of
                Inl e \<Rightarrow> None
              | Inr a \<Rightarrow> (case py_int m of Inl e \<Rightarrow> None | Inr b \<Rightarrow> Some (a * 60 + b)))
         | _ \<Rightarrow> None)
      else None)"
  proof (cases "CHR '':'' \<in> set (strip s)")
    case True
    then show ?thesis by (simp add: parse_time_minutes_parts)
  next
    case False
    then show ?thesis by (simp add: parse_time_minutes_def parse_time_body_def)
  qed
  have c: "(CHR '':'' \<in> set (strip s)) = (2 \<le> length (split_on CHR '':'' (strip s)))"
    by (simp add: split_on_two_parts)
  have e1: "parse_time_minutes (Val ''08:00'') = Some 480" by code_simp
  have e2: "parse_time_minutes (Val ''08:00:00'') = Some 480" by code_simp
  have e3: "parse_time_minutes (Val ''8'') = None" by code_simp
  have e4: "parse_time_minutes (Val '''') = None" by code_simp
  have e5: "parse_time_minutes (Val ''   '') = None" by code_simp
  have e6: "parse_time_minutes (Val ''nan'') = None" by code_simp
  have e7: "parse_time_minutes (Val ''ab:cd'') = None" by code_simp
  from a b c e1 e2 e3 e4 e5 e6 e7 show ?thesis by blast
qed

text \<open>
  Claim C1, at the event \<^const>\<open>midnight_event\<close> and the slot starting at 06:00 (minute 360).
  Both times of the event are parsed, to 0 and to 480, and 0 \<open>\<le>\<close> 360 < 480: the event
  covers the slot.  The test of \<^verbatim>\<open>create_calendar_heatmap\<close> is false there all the same,
  because the parsed start 0 counts as false in \<^verbatim>\<open>start_min and end_min and ...\<close>.
\<close>

theorem occupies_slot_midnight_start:
  "parse_time_minutes (Val (ev_start midnight_event)) = Some 0 \<and>
   parse_time_minutes (Val (ev_end midnight_event)) = Some 480 \<and>
   (0::int) \<le> 360 \<and> (360::int) < 480 \<and>
   \<not> occupies_slot midnight_event 360"
  by code_simp

section \<open>Properties of Day Ordering\<close>

lemma is_space_lower_char: "is_space (lower_char c) = is_space c"
  by (simp add: lower_char_def is_space_def)

lemma lower_dropWhile: "lower (dropWhile is_space s) = dropWhile is_space (lower s)"
  by (simp add: lower_def dropWhile_map comp_def is_space_lower_char)

lemma lower_rev: "lower (rev s) = rev (lower s)"
  by (simp add: lower_def rev_map)

lemma lower_strip: "lower (strip s) = strip (lower s)"
  by (simp add: strip_def lower_dropWhile lower_rev)

lemma split_ws_dropWhile: "split_ws (dropWhile is_space s) = split_ws s"
  by (induction s) auto

lemma split_ws_snoc_space: "is_space c \<Longrightarrow> split_ws (s @ [c]) = split_ws s"
proof (induction s)
  case Nil
  then show ?case by simp
next
  case (Cons a s)
  then show ?case by (cases s) auto
qed

lemma split_ws_drop_trailing: "split_ws (rev (dropWhile is_space (rev s))) = split_ws s"
proof (induction s rule: rev_induct)
  case Nil
  then show ?case by simp
next
  case (snoc x xs)
  then show ?case by (simp add: split_ws_snoc_space)
qed

lemma split_ws_strip: "split_ws (strip s) = split_ws s"
  by (simp add: strip_def split_ws_drop_trailing split_ws_dropWhile)

lemma split_ws_all_space: "\<forall>c\<in>set s. is_space c \<Longrightarrow> split_ws s = []"
  by (induction s) auto

lemma dropWhile_all_dropped:
  assumes "\<forall>x\<in>set (dropWhile P s). P x"
  shows "dropWhile P s = []"
proof (rule ccontr)
  assume ne: "dropWhile P s \<noteq> []"
  then have "\<not> P (hd (dropWhile P s))" by (rule hd_dropWhile)
  moreover from ne have "hd (dropWhile P s) \<in> set (dropWhile P s)" by simp
  ultimately show False using assms by blast
qed

lemma strip_empty_all_space:
  assumes "strip s = []"
  shows "\<forall>c\<in>set s. is_space c"
proof -
  from assms have "dropWhile is_space (rev (dropWhile is_space s)) = []"
    by (simp add: strip_def)
  then have "\<forall>x\<in>set (dropWhile is_space s). is_space x"
    by (simp add: dropWhile_eq_Nil_conv)
  then have "dropWhile is_space s = []" by (rule dropWhile_all_dropped)
  then show ?thesis by (simp add: dropWhile_eq_Nil_conv)
qed

lemma get_day_order_key_rank: "get_day_order_key (Val s) = day_rank s"
proof (cases "strip s = []")
  case True
  then have "\<forall>c\<in>set s. is_space c" by (rule strip_empty_all_space)
  then have "\<forall>c\<in>set (lower s). is_space c"
    by (simp add: lower_def is_space_lower_char)
  then have "split_ws (lower s) = []" by (rule split_ws_all_space)
  with True show ?thesis by (simp add: get_day_order_key_def day_rank_def)
next
  case False
  then show ?thesis
    by (simp add: get_day_order_key_def day_rank_def lower_strip split_ws_strip)
qed


text \<open>
  Claim C6.  \<^verbatim>\<open>sort_days\<close> drops the missing values, the blank texts and the texts that
  read \<^verbatim>\<open>nan\<close> in any casing, and nothing else: its result holds the remaining values, each
  as often as the input and in the input's spelling.  The result is ordered by rank, and
  the values of one rank stand in the order they had in the input.  The rank of a text is
  \<^const>\<open>day_rank\<close>: the weekday table at the first token of the lower-cased text, 99 when
  the table has no such key.  The table sends the English and French names and their
  three-letter forms to 1 for Monday up to 7 for Sunday.  The list Friday, monday,
  Tue 2024-01-02 comes out as monday, Tue 2024-01-02, Friday, and a label the table does
  not know is kept and comes last.
\<close>

theorem sort_days_order:
  "keep_day NA = False \<and>
   keep_day (Val s) = (strip s \<noteq> [] \<and> lower (strip s) \<noteq> ''nan'') \<and>
   mset (sort_days ds) = mset (filter keep_day ds) \<and>
   sorted (map get_day_order_key (sort_days ds)) \<and>
   filter (\<lambda>d. get_day_order_key d = k) (sort_days ds) =
     filter (\<lambda>d. get_day_order_key d = k) (filter keep_day ds) \<and>
   get_day_order_key (Val s) = day_rank s \<and>
   map (map_of day_order) [''monday'', ''mon'', ''lundi'', ''lun''] = replicate 4 (Some 1) \<and>
   map (map_of day_order) [''tuesday'', ''tue'', ''mardi'', ''mar''] = replicate 4 (Some 2) \<and>
   map (map_of day_order) [''wednesday'', ''wed'', ''mercredi'', ''mer''] = replicate 4 (Some 3) \<and>
   map (map_of day_order) [''thursday'', ''thu'', ''jeudi'', ''jeu''] = replicate 4 (Some 4) \<and>
   map (map_of day_order) [''friday'', ''fri'', ''vendredi'', ''ven''] = replicate 4 (Some 5) \<and>
   map (map_of day_order) [''saturday'', ''sat'', ''samedi'', ''sam''] = replicate 4 (Some 6) \<and>
   map (map_of day_order) [''sunday'', ''sun'', ''dimanche'', ''dim''] = replicate 4 (Some 7) \<and>
   length day_order = 28 \<and>
   sort_days [Val ''Friday'', Val ''monday'', Val ''Tue 2024-01-02''] =
     [Val ''monday'', Val ''Tue 2024-01-02'', Val ''Friday''] \<and>
   sort_days [Val ''Someday'', NA, Val '' '', Val ''NaN'', Val ''sun''] =
     [Val ''sun'', Val ''Someday'']"
proof -
  have k1: "keep_day NA = False" by (simp add: keep_day_def)
  have k2: "keep_day (Val s) = (strip s \<noteq> [] \<and> lower (strip s) \<noteq> ''nan'')"
    by (simp add: keep_day_def Let_def)
  have p: "mset (sort_days ds) = mset (filter keep_day ds)"
    by (simp add: sort_days_def)
  have o: "sorted (map get_day_order_key (sort_days ds))"
    by (simp add: sort_days_def)
  have st: "filter (\<lambda>d. get_day_order_key d = k) (sort_days ds) =
     filter (\<lambda>d. get_day_order_key d = k) (filter keep_day ds)"
    unfolding sort_days_def by (rule sort_key_stable)
  have r: "get_day_order_key (Val s) = day_rank s" by (rule get_day_order_key_rank)
  have t1: "map (map_of day_order) [''monday'', ''mon'', ''lundi'', ''lun''] = replicate 4 (Some 1)"
    by code_simp
  have t2: "map (map_of day_order) [''tuesday'', ''tue'', ''mardi'', ''mar''] = replicate 4 (Some 2)"
    by code_simp
  have t3: "map (map_of day_order) [''wednesday'', ''wed'', ''mercredi'', ''mer''] = replicate 4 (Some 3)"
    by code_simp
  have t4: "map (map_of day_order) [''thursday'', ''thu'', ''jeudi'', ''jeu''] = replicate 4 (Some 4)"
    by code_simp
  have t5: "map (map_of day_order) [''friday'', ''fri'', ''vendredi'', ''ven''] = replicate 4 (Some 5)"
    by code_simp
  have t6: "map (map_of day_order) [''saturday'', ''sat'', ''samedi'', ''sam''] = replicate 4 (Some 6)"
    by code_simp
  have t7: "map (map_of day_order) [''sunday'', ''sun'', ''dimanche'', ''dim''] = replicate 4 (Some 7)"
    by code_simp
  have n: "length day_order = 28" by (simp add: day_order_def)
  have e1: "sort_days [Val ''Friday'', Val ''monday'', Val ''Tue 2024-01-02''] =
     [Val ''monday'', Val ''Tue 2024-01-02'', Val ''Friday'']"
    by code_simp
  have e2: "sort_days [Val ''Someday'', NA, Val '' '', Val ''NaN'', Val ''sun''] =
     [Val ''sun'', Val ''Someday'']"
    by code_simp
  from k1 k2 p o st r t1 t2 t3 t4 t5 t6 t7 n e1 e2 show ?thesis by blast
qed

section \<open>Properties of the column classification\<close>

lemma starts_with_iff: "starts_with p s = (\<exists>post. s = p @ post)"
  by (induction p s rule: starts_with.induct) auto

lemma py_in_iff: "py_in sub s = (\<exists>pre post. s = pre @ sub @ post)"
proof (induction s)
  case Nil
  then show ?case by auto
next
  case (Cons c cs)
  have "(\<exists>pre post. c # cs = pre @ sub @ post) =
        ((\<exists>post. c # cs = sub @ post) \<or> (\<exists>pre post. cs = pre @ sub @ post))"
  proof
    assume "\<exists>pre post. c # cs = pre @ sub @ post"
    then obtain pre post where eq: "c # cs = pre @ sub @ post" by blast
    show "(\<exists>post. c # cs = sub @ post) \<or> (\<exists>pre post. cs = pre @ sub @ post)"
    proof (cases pre)
      case Nil
      with eq show ?thesis by auto
    next
      case (Cons a pre')
      with eq have "cs = pre' @ sub @ post" by simp
      then show ?thesis by blast
    qed
  next
    assume "(\<exists>post. c # cs = sub @ post) \<or> (\<exists>pre post. cs = pre @ sub @ post)"
    then show "\<exists>pre post. c # cs = pre @ sub @ post"
    proof
      assume "\<exists>post. c # cs = sub @ post"
      then obtain post where "c # cs = [] @ sub @ post" by auto
      then show ?thesis by blast
    next
      assume "\<exists>pre post. cs = pre @ sub @ post"
      then obtain pre post where "c # cs = (c # pre) @ sub @ post" by auto
      then show ?thesis by blast
    qed
  qed
  with Cons show ?case by (simp add: starts_with_iff)
qed

lemma py_in_dropWhile:
  assumes "kw \<noteq> []" and "\<not> is_space (hd kw)"
  shows "py_in kw (dropWhile is_space s) = py_in kw s"
proof (induction s)
  case Nil
  then show ?case by simp
next
  case (Cons c cs)
  show ?case
  proof (cases "is_space c")
    case True
    with assms have "\<not> starts_with kw (c # cs)"
      by (cases kw) auto
    with True Cons show ?thesis by simp
  next
    case False
    then show ?thesis by simp
  qed
qed

lemma py_in_snoc_space:
  assumes "kw \<noteq> []" and "\<not> is_space (last kw)" and "is_space x"
  shows "py_in kw (xs @ [x]) = py_in kw xs"
proof
  assume "py_in kw (xs @ [x])"
  then obtain pre post where eq: "xs @ [x] = pre @ kw @ post"
    by (auto simp: py_in_iff)
  show "py_in kw xs"
  proof (cases post rule: rev_cases)
    case Nil
    with eq assms(1) have "x = last kw"
      by (metis append_Nil2 last_appendR last_snoc)
    with assms show ?thesis by simp
  next
    case (snoc post' y)
    with eq have "xs @ [x] = (pre @ kw @ post') @ [y]" by simp
    then have "xs = pre @ kw @ post'" by (simp only: append1_eq_conv)
    then show ?thesis by (auto simp: py_in_iff)
  qed
next
  assume "py_in kw xs"
  then obtain pre post where "xs = pre @ kw @ post" by (auto simp: py_in_iff)
  then have "xs @ [x] = pre @ kw @ (post @ [x])" by simp
  then show "py_in kw (xs @ [x])" unfolding py_in_iff by blast
qed

lemma py_in_drop_trailing:
  assumes "kw \<noteq> []" and "\<not> is_space (last kw)"
  shows "py_in kw (rev (dropWhile is_space (rev s))) = py_in kw s"
proof (induction s rule: rev_induct)
  case Nil
  then show ?case by simp
next
  case (snoc x xs)
  then show ?case using assms by (simp add: py_in_snoc_space)
qed

lemma py_in_strip:
  assumes "kw \<noteq> []" and "\<not> is_space (hd kw)" and "\<not> is_space (last kw)"
  shows "py_in kw (strip s) = py_in kw s"
  using assms by (simp add: strip_def py_in_drop_trailing py_in_dropWhile)

lemma ci_contains_strip:
  assumes "kw \<noteq> []" and "\<not> is_space (hd kw)" and "\<not> is_space (last kw)"
  shows "py_in kw (lower (strip l)) = ci_contains kw l"
  using assms by (simp add: ci_contains_def lower_strip py_in_strip)

lemma keyword_contains:
  "py_in ''date'' (lower (strip l)) = ci_contains ''date'' l"
  "py_in ''activity'' (lower (strip l)) = ci_contains ''activity'' l"
  "py_in ''title'' (lower (strip l)) = ci_contains ''title'' l"
  "py_in ''start'' (lower (strip l)) = ci_contains ''start'' l"
  "py_in ''end'' (lower (strip l)) = ci_contains ''end'' l"
  "py_in ''archetype'' (lower (strip l)) = ci_contains ''archetype'' l"
  "py_in ''note'' (lower (strip l)) = ci_contains ''note'' l"
  "py_in ''detail'' (lower (strip l)) = ci_contains ''detail'' l"
  "py_in ''exam'' (lower (strip l)) = ci_contains ''exam'' l"
  by (rule ci_contains_strip; simp add: is_space_def)+

lemma classify_rules:
  "classify col =
     (if ci_contains ''date'' col \<or> lower (strip col) = ''day'' then Some ''day''
      else if ci_contains ''activity'' col \<or> ci_contains ''title'' col then Some ''title''
      else if ci_contains ''start'' col then Some ''start''
      else if ci_contains ''end'' col then Some ''end''
      else if ci_contains ''archetype'' col then Some ''archetype''
      else if ci_contains ''note'' col \<or> ci_contains ''detail'' col \<or> ci_contains ''exam'' col
        then Some ''notes''
      else None)"
  unfolding classify_def Let_def keyword_contains by (rule refl)

text \<open>
  Claim C5.  The label of a column is mapped to at most one standard field: to the
  first field, in the order day, title, start, end, archetype, notes, whose keyword rule
  holds for the label, and to none when no rule holds.  The rules look at the label
  without regard to case: day for a label that contains \<^verbatim>\<open>date\<close> or reads \<^verbatim>\<open>day\<close>, title for
  \<^verbatim>\<open>activity\<close> or \<^verbatim>\<open>title\<close>, start for \<^verbatim>\<open>start\<close>, end for \<^verbatim>\<open>end\<close>, archetype for \<^verbatim>\<open>archetype\<close>,
  notes for \<^verbatim>\<open>note\<close>, \<^verbatim>\<open>detail\<close> or \<^verbatim>\<open>exam\<close>.  So \<^verbatim>\<open>Start Date\<close> goes to day although it
  contains \<^verbatim>\<open>start\<close>, \<^verbatim>\<open>Holiday\<close> contains \<^verbatim>\<open>day\<close> and goes nowhere, and \<^verbatim>\<open>Room\<close> goes nowhere.
\<close>

theorem classify_first_rule:
  "classify col = first_matching_rule col \<and>
   (classify col = Some ''day'') =
     (ci_contains ''date'' col \<or> lower (strip col) = ''day'') \<and>
   (classify col = Some ''title'') =
     (classify col \<noteq> Some ''day'' \<and> (ci_contains ''activity'' col \<or> ci_contains ''title'' col)) \<and>
   (classify col = Some ''start'') =
     (classify col \<notin> {Some ''day'', Some ''title''} \<and> ci_contains ''start'' col) \<and>
   (classify col = Some ''end'') =
     (classify col \<notin> {Some ''day'', Some ''title'', Some ''start''} \<and> ci_contains ''end'' col) \<and>
   (classify col = Some ''archetype'') =
     (classify col \<notin> {Some ''day'', Some ''title'', Some ''start'', Some ''end''} \<and>
      ci_contains ''archetype'' col) \<and>
   (classify col = Some ''notes'') =
     (classify col \<notin> {Some ''day'', Some ''title'', Some ''start'', Some ''end'', Some ''archetype''} \<and>
      (ci_contains ''note'' col \<or> ci_contains ''detail'' col \<or> ci_contains ''exam'' col)) \<and>
   classify col \<in> {None, Some ''day'', Some ''title'', Some ''start'', Some ''end'',
                   Some ''archetype'', Some ''notes''} \<and>
   classify ''Start Date'' = Some ''day'' \<and>
   classify '' DAY '' = Some ''day'' \<and>
   classify ''Holiday'' = None \<and>
   classify ''Activity Title'' = Some ''title'' \<and>
   classify ''End Time'' = Some ''end'' \<and>
   classify ''Notes (Exam Duration)'' = Some ''notes'' \<and>
   classify ''Room'' = None"
proof -
  have r: "classify col = first_matching_rule col"
    by (simp add: classify_rules first_matching_rule_def keyword_rules_def)
  have d: "(classify col = Some ''day'') =
     (ci_contains ''date'' col \<or> lower (strip col) = ''day'')"
    by (simp add: classify_rules)
  have t: "(classify col = Some ''title'') =
     (classify col \<noteq> Some ''day'' \<and> (ci_contains ''activity'' col \<or> ci_contains ''title'' col))"
    by (simp add: classify_rules)
  have s: "(classify col = Some ''start'') =
     (classify col \<notin> {Some ''day'', Some ''title''} \<and> ci_contains ''start'' col)"
    by (simp add: classify_rules)
  have e: "(classify col = Some ''end'') =
     (classify col \<notin> {Some ''day'', Some ''title'', Some ''start''} \<and> ci_contains ''end'' col)"
    by (simp add: classify_rules)
  have a: "(classify col = Some ''archetype'') =
     (classify col \<notin> {Some ''day'', Some ''title'', Some ''start'', Some ''end''} \<and>
      ci_contains ''archetype'' col)"
    by (simp add: classify_rules)
  have n: "(classify col = Some ''notes'') =
     (classify col \<notin> {Some ''day'', Some ''title'', Some ''start'', Some ''end'', Some ''archetype''} \<and>
      (ci_contains ''note'' col \<or> ci_contains ''detail'' col \<or> ci_contains ''exam'' col))"
    by (simp add: classify_rules)
  have rg: "classify col \<in> {None, Some ''day'', Some ''title'', Some ''start'', Some ''end'',
                   Some ''archetype'', Some ''notes''}"
    by (simp add: classify_rules)
  have x1: "classify ''Start Date'' = Some ''day''" by code_simp
  have x2: "classify '' DAY '' = Some ''day''" by code_simp
  have x3: "classify ''Holiday'' = None" by code_simp
  have x4: "classify ''Activity Title'' = Some ''title''" by code_simp
  have x5: "classify ''End Time'' = Some ''end''" by code_simp
  have x6: "classify ''Notes (Exam Duration)'' = Some ''notes''" by code_simp
  have x7: "classify ''Room'' = None" by code_simp
  from r d t s e a n rg x1 x2 x3 x4 x5 x6 x7 show ?thesis by blast
qed

section \<open>Properties of the Export Table Builder\<close>

lemma create_excel_export_append:
  "create_excel_export evs (ds1 @ ds2) = create_excel_export evs ds1 @ create_excel_export evs ds2"
  by (induction ds1) simp_all

lemma create_excel_export_concat:
  "create_excel_export evs days = concat (map (\<lambda>day. create_excel_export evs [day]) days)"
  by (induction days) simp_all

text \<open>
  Claim C7.  The data rows of the export are the rows of the first day, then those of the
  second day, and so on in the order of the day list.  A day that no row of the schedule
  matches gives the single row with the day and \<^verbatim>\<open>Free time\<close>.  Any other day gives one row
  for each of its rows of the schedule, in the order of the schedule, with the day, the
  text \<^verbatim>\<open>start-end\<close>, the title, the archetype and the notes.  No time is parsed on the
  way: \<^const>\<open>untimed_event\<close>, whose times \<^verbatim>\<open>parse_time_minutes\<close> rejects, has its row.
\<close>

theorem create_excel_export_rows:
  "create_excel_export evs (ds1 @ ds2) =
     create_excel_export evs ds1 @ create_excel_export evs ds2 \<and>
   create_excel_export evs days = concat (map (\<lambda>day. create_excel_export evs [day]) days) \<and>
   create_excel_export evs [day] =
     (if filter (day_matches day) evs = [] then [free_row day]
      else map (event_row day) (filter (day_matches day) evs)) \<and>
   length (create_excel_export evs [day]) = max 1 (length (filter (day_matches day) evs)) \<and>
   day_matches day e = (lower (strip (ev_day e)) = lower (strip day)) \<and>
   free_row day =
     \<lparr>x_day = Some day, x_time = None, x_activity = Some ''Free time'',
      x_archetype = None, x_notes = None\<rparr> \<and>
   event_row day e =
     \<lparr>x_day = Some day, x_time = Some (ev_start e @ ''-'' @ ev_end e),
      x_activity = Some (ev_title e), x_archetype = Some (ev_archetype e),
      x_notes = Some (ev_notes e)\<rparr> \<and>
   parse_time_minutes (Val (ev_start untimed_event)) = None \<and>
   parse_time_minutes (Val (ev_end untimed_event)) = None \<and>
   create_excel_export [lesson_event, untimed_event, call_event] [''Tuesday'', ''MONDAY''] =
     [free_row ''Tuesday'', event_row ''MONDAY'' lesson_event,
      event_row ''MONDAY'' untimed_event, event_row ''MONDAY'' call_event]"
proof -
  have a: "create_excel_export evs (ds1 @ ds2) =
     create_excel_export evs ds1 @ create_excel_export evs ds2"
    by (rule create_excel_export_append)
  have b: "create_excel_export evs days =
     concat (map (\<lambda>day. create_excel_export evs [day]) days)"
    by (rule create_excel_export_concat)
  have c: "create_excel_export evs [day] =
     (if filter (day_matches day) evs = [] then [free_row day]
      else map (event_row day) (filter (day_matches day) evs))"
    by (simp add: day_events_def)
  have d: "length (create_excel_export evs [day]) = max 1 (length (filter (day_matches day) evs))"
    by (cases "filter (day_matches day) evs") (simp_all add: day_events_def)
  have m: "day_matches day e = (lower (strip (ev_day e)) = lower (strip day))"
    by (simp add: day_matches_def)
  have f: "free_row day =
     \<lparr>x_day = Some day, x_time = None, x_activity = Some ''Free time'',
      x_archetype = None, x_notes = None\<rparr>"
    by (simp add: free_row_def)
  have g: "event_row day e =
     \<lparr>x_day = Some day, x_time = Some (ev_start e @ ''-'' @ ev_end e),
      x_activity = Some (ev_title e), x_archetype = Some (ev_archetype e),
      x_notes = Some (ev_notes e)\<rparr>"
    by (simp add: event_row_def)
  have p1: "parse_time_minutes (Val (ev_start untimed_event)) = None" by code_simp
  have p2: "parse_time_minutes (Val (ev_end untimed_event)) = None" by code_simp
  have x: "create_excel_export [lesson_event, untimed_event, call_event] [''Tuesday'', ''MONDAY''] =
     [free_row ''Tuesday'', event_row ''MONDAY'' lesson_event,
      event_row ''MONDAY'' untimed_event, event_row ''MONDAY'' call_event]"
    by code_simp
  from a b c d m f g p1 p2 x show ?thesis by blast
qed

section \<open>Properties of the Grid Builder\<close>

lemma collect_map:
  assumes "\<forall>x\<in>set xs. f x = Inr (g x)"
  shows "collect f xs = Inr (map g xs)"
  using assms by (induction xs) simp_all

lemma set_all_archetypes:
  "set (all_archetypes evs) = insert ''(empty)'' (ev_archetype ` set evs)"
  by (auto simp: all_archetypes_def)

lemma arch_to_idx_Some:
  assumes "a \<in> set (all_archetypes evs)"
  shows "\<exists>i. arch_to_idx evs a = Some i"
proof -
  have "length (all_archetypes evs) = length [0..<length (all_archetypes evs)]" by simp
  from map_of_zip_is_Some [OF this] assms show ?thesis
    unfolding arch_to_idx_def by blast
qed

lemma matching_events_filter:
  "matching_events evs day slot =
     filter (\<lambda>e. day_matches day e \<and> occupies_slot e slot) evs"
  by (simp add: matching_events_def day_events_def)

lemma first_of_filter:
  "(case filter P xs of [] \<Rightarrow> None | e # es \<Rightarrow> Some e) = find P xs"
  by (induction xs) simp_all

lemma find_first:
  assumes "P e" and "\<forall>x\<in>set pre. \<not> P x"
  shows "find P (pre @ e # post) = Some e"
  using assms by (induction pre) simp_all

text \<open>No lookup of \<^verbatim>\<open>arch_to_idx\<close> misses: a cell is built for every slot and day.\<close>

lemma build_cell_total: "build_cell evs slot day = Inr (the_cell evs slot day)"
proof (cases "find (\<lambda>e. day_matches day e \<and> occupies_slot e slot) evs")
  case None
  then have m: "matching_events evs day slot = []"
    by (simp add: matching_events_filter find_None_iff filter_empty_conv)
  obtain i where "arch_to_idx evs ''(empty)'' = Some i"
    using arch_to_idx_Some [of "''(empty)''" evs] by (auto simp: set_all_archetypes)
  with None m show ?thesis by (simp add: build_cell_def the_cell_def)
next
  case (Some e)
  from Some have "e \<in> set evs" by (auto simp: find_Some_iff)
  then obtain i where i: "arch_to_idx evs (ev_archetype e) = Some i"
    using arch_to_idx_Some [of "ev_archetype e" evs] by (auto simp: set_all_archetypes)
  from Some obtain es where "matching_events evs day slot = e # es"
    using first_of_filter [of "\<lambda>e. day_matches day e \<and> occupies_slot e slot" evs]
    by (auto simp: matching_events_filter split: list.splits)
  with Some i show ?thesis by (simp add: build_cell_def the_cell_def)
qed

lemma create_calendar_heatmap_nonempty:
  assumes "evs \<noteq> []"
  shows "create_calendar_heatmap evs days =
     ([], Inr (Some \<lparr>grid_slots = slots, grid_days = days,
        grid_z = map (\<lambda>slot. map (\<lambda>day. fst (the_cell evs slot day)) days) slots,
        grid_events = map (\<lambda>slot. map (\<lambda>day. snd (the_cell evs slot day)) days) slots\<rparr>))"
proof -
  have "collect (\<lambda>slot. collect (build_cell evs slot) days) slots =
        Inr (map (\<lambda>slot. map (the_cell evs slot) days) slots)"
    by (rule collect_map) (simp add: collect_map build_cell_total)
  with assms show ?thesis
    by (simp add: create_calendar_heatmap_def comp_def)
qed

lemma length_slots: "length slots = 34"
  by (simp add: slots_def py_range_def)

text \<open>
  The tie-break of \<^verbatim>\<open>create_calendar_heatmap\<close>.  Take a schedule with rows, a slot and a day
  of the grid.  The cell of the grid at that slot and day is rendered from the first row,
  in the order of the schedule, that belongs to the day and passes the slot test of the
  program, and its entry in \<open>z\<close> is the index of that row's archetype.  So when the schedule is
  \<open>pre\<close>, then \<open>e\<close>, then \<open>post\<close>, no row of \<open>pre\<close> is of the day and passes the test, and \<open>e\<close>
  does, the cell is that of \<open>e\<close>, whatever rows of \<open>post\<close> pass the test too.
\<close>

lemma first_row_wins:
  assumes "evs = pre @ e # post"
    and "day_matches (days ! j) e \<and> occupies_slot e (slots ! i)"
    and "\<forall>x\<in>set pre. \<not> (day_matches (days ! j) x \<and> occupies_slot x (slots ! i))"
    and "i < length slots" and "j < length days"
  shows "\<exists>g. create_calendar_heatmap evs days = ([], Inr (Some g)) \<and>
              grid_events g ! i ! j =
                find (\<lambda>x. day_matches (days ! j) x \<and> occupies_slot x (slots ! i)) evs \<and>
              grid_events g ! i ! j = Some e \<and>
              arch_to_idx evs (ev_archetype e) = Some (grid_z g ! i ! j)"
proof -
  let ?P = "\<lambda>x. day_matches (days ! j) x \<and> occupies_slot x (slots ! i)"
  let ?g = "\<lparr>grid_slots = slots, grid_days = days,
        grid_z = map (\<lambda>slot. map (\<lambda>day. fst (the_cell evs slot day)) days) slots,
        grid_events = map (\<lambda>slot. map (\<lambda>day. snd (the_cell evs slot day)) days) slots\<rparr>"
  from assms(1) have ne: "evs \<noteq> []" by simp
  then have g: "create_calendar_heatmap evs days = ([], Inr (Some ?g))"
    by (rule create_calendar_heatmap_nonempty)
  have f: "find ?P evs = Some e"
    unfolding assms(1) using assms(2,3) by (rule find_first)
  from assms(4,5) have ev: "grid_events ?g ! i ! j = snd (the_cell evs (slots ! i) (days ! j))"
    by simp
  from assms(4,5) have z: "grid_z ?g ! i ! j = fst (the_cell evs (slots ! i) (days ! j))"
    by simp
  from f have c: "the_cell evs (slots ! i) (days ! j) =
      (the (arch_to_idx evs (ev_archetype e)), Some e)"
    by (simp add: the_cell_def)
  from assms(1) have "ev_archetype e \<in> set (all_archetypes evs)"
    by (simp add: set_all_archetypes)
  then obtain k where k: "arch_to_idx evs (ev_archetype e) = Some k"
    using arch_to_idx_Some by blast
  from ev c f have 1: "grid_events ?g ! i ! j = find ?P evs" by simp
  from ev c have 2: "grid_events ?g ! i ! j = Some e" by simp
  from z c k have 3: "arch_to_idx evs (ev_archetype e) = Some (grid_z ?g ! i ! j)" by simp
  from g 1 2 3 show ?thesis by blast
qed

lemma first_row_wins_example:
  "day_matches ([''Monday''] ! 0) lesson_event \<and> occupies_slot lesson_event (slots ! 5) \<and>
   day_matches ([''Monday''] ! 0) call_event \<and> occupies_slot call_event (slots ! 5) \<and>
   (\<exists>g. create_calendar_heatmap [untimed_event, lesson_event, call_event] [''Monday''] =
           ([], Inr (Some g)) \<and>
         grid_events g ! 5 ! 0 = Some lesson_event \<and>
         arch_to_idx [untimed_event, lesson_event, call_event] (ev_archetype lesson_event) =
           Some (grid_z g ! 5 ! 0))"
proof -
  have h1: "[untimed_event, lesson_event, call_event] = [untimed_event] @ lesson_event # [call_event]"
    by simp
  have h2: "day_matches ([''Monday''] ! 0) lesson_event \<and> occupies_slot lesson_event (slots ! 5)"
    by code_simp
  have h3: "\<forall>x\<in>set [untimed_event].
      \<not> (day_matches ([''Monday''] ! 0) x \<and> occupies_slot x (slots ! 5))"
    by code_simp
  have h4: "5 < length slots" by (simp add: length_slots)
  have h5: "0 < length [''Monday'']" by simp
  have o: "day_matches ([''Monday''] ! 0) call_event \<and> occupies_slot call_event (slots ! 5)"
    by code_simp
  from first_row_wins [OF h1 h2 h3 h4 h5] h2 o show ?thesis by blast
qed

text \<open>
  Claim C2, at the schedule of \<^const>\<open>midnight_event\<close> followed by \<^const>\<open>run_event\<close>, the day
  Monday and the slot starting at 06:00, the first slot of the grid.  Both rows are of
  the day, both have times that are parsed, and both cover the slot: 0 \<open>\<le>\<close> 360 < 480 and
  360 \<open>\<le>\<close> 360 < 420.  The first of the two in the order of the schedule is the sleep.
  The grid shows the run, the second row: the slot test takes the parsed start 0 of the
  sleep for false and passes it over.
\<close>

theorem first_row_passed_over:
  "day_matches ''Monday'' midnight_event \<and> day_matches ''Monday'' run_event \<and>
   parse_time_minutes (Val (ev_start midnight_event)) = Some 0 \<and>
   parse_time_minutes (Val (ev_end midnight_event)) = Some 480 \<and>
   parse_time_minutes (Val (ev_start run_event)) = Some 360 \<and>
   parse_time_minutes (Val (ev_end run_event)) = Some 420 \<and>
   slots ! 0 = 360 \<and>
   midnight_event \<noteq> run_event \<and>
   (\<exists>g. create_calendar_heatmap [midnight_event, run_event] [''Monday''] =
           ([], Inr (Some g)) \<and>
        grid_events g ! 0 ! 0 = Some run_event)"
proof -
  have d1: "day_matches ''Monday'' midnight_event" by code_simp
  have d2: "day_matches ''Monday'' run_event" by code_simp
  have p1: "parse_time_minutes (Val (ev_start midnight_event)) = Some 0" by code_simp
  have p2: "parse_time_minutes (Val (ev_end midnight_event)) = Some 480" by code_simp
  have p3: "parse_time_minutes (Val (ev_start run_event)) = Some 360" by code_simp
  have p4: "parse_time_minutes (Val (ev_end run_event)) = Some 420" by code_simp
  have s0: "slots ! 0 = 360" by code_simp
  have ne: "midnight_event \<noteq> run_event" by code_simp
  have h1: "[midnight_event, run_event] = [midnight_event] @ run_event # []" by simp
  have h2: "day_matches ([''Monday''] ! 0) run_event \<and> occupies_slot run_event (slots ! 0)"
    by code_simp
  have h3: "\<forall>x\<in>set [midnight_event].
      \<not> (day_matches ([''Monday''] ! 0) x \<and> occupies_slot x (slots ! 0))"
    by code_simp
  have h4: "0 < length slots" by (simp add: length_slots)
  have h5: "0 < length [''Monday'']" by simp
  from first_row_wins [OF h1 h2 h3 h4 h5]
  have g: "\<exists>g. create_calendar_heatmap [midnight_event, run_event] [''Monday''] =
           ([], Inr (Some g)) \<and>
        grid_events g ! 0 ! 0 = Some run_event"
    by blast
  from d1 d2 p1 p2 p3 p4 s0 ne g show ?thesis by (intro conjI)
qed

text \<open>
  Claim C10.  For a schedule without rows \<^verbatim>\<open>create_calendar_heatmap\<close> issues the warning
  \<^verbatim>\<open>No data to display\<close> and returns \<^verbatim>\<open>None\<close>: no grid is built.  For a schedule with rows it
  issues no warning, raises nothing, and returns a grid over the 34 half-hour slots from
  06:00 to 22:30 and the given days, with one cell for every slot and day.
\<close>

theorem empty_schedule_no_grid:
  "create_calendar_heatmap [] days = ([''No data to display''], Inr None) \<and>
   (evs \<noteq> [] \<longrightarrow>
     (\<exists>g. create_calendar_heatmap evs days = ([], Inr (Some g)) \<and>
          grid_slots g = slots \<and> grid_days g = days \<and>
          slots = map (\<lambda>k. 360 + 30 * int k) [0..<34] \<and>
          length (grid_z g) = 34 \<and> length (grid_events g) = 34 \<and>
          (\<forall>row\<in>set (grid_z g). length row = length days) \<and>
          (\<forall>row\<in>set (grid_events g). length row = length days)))"
proof -
  have a: "create_calendar_heatmap [] days = ([''No data to display''], Inr None)"
    by (simp add: create_calendar_heatmap_def)
  have s: "slots = map (\<lambda>k. 360 + 30 * int k) [0..<34]"
    by (simp add: slots_def py_range_def mult.commute)
  have b: "evs \<noteq> [] \<longrightarrow>
     (\<exists>g. create_calendar_heatmap evs days = ([], Inr (Some g)) \<and>
          grid_slots g = slots \<and> grid_days g = days \<and>
          slots = map (\<lambda>k. 360 + 30 * int k) [0..<34] \<and>
          length (grid_z g) = 34 \<and> length (grid_events g) = 34 \<and>
          (\<forall>row\<in>set (grid_z g). length row = length days) \<and>
          (\<forall>row\<in>set (grid_events g). length row = length days))"
  proof
    assume "evs \<noteq> []"
    then have "create_calendar_heatmap evs days =
     ([], Inr (Some \<lparr>grid_slots = slots, grid_days = days,
        grid_z = map (\<lambda>slot. map (\<lambda>day. fst (the_cell evs slot day)) days) slots,
        grid_events = map (\<lambda>slot. map (\<lambda>day. snd (the_cell evs slot day)) days) slots\<rparr>))"
      by (rule create_calendar_heatmap_nonempty)
    with s show "\<exists>g. create_calendar_heatmap evs days = ([], Inr (Some g)) \<and>
          grid_slots g = slots \<and> grid_days g = days \<and>
          slots = map (\<lambda>k. 360 + 30 * int k) [0..<34] \<and>
          length (grid_z g) = 34 \<and> length (grid_events g) = 34 \<and>
          (\<forall>row\<in>set (grid_z g). length row = length days) \<and>
          (\<forall>row\<in>set (grid_events g). length row = length days)"
      by (auto simp: length_slots)
  qed
  from a b show ?thesis by blast
qed

theorem empty_schedule_no_grid_witness:
  "[midnight_event] \<noteq> [] \<and>
   (\<exists>g. create_calendar_heatmap [midnight_event] [''Monday'', ''Tuesday''] = ([], Inr (Some g)) \<and>
        length (grid_z g) = 34 \<and> length (grid_events g) = 34 \<and>
        (\<forall>row\<in>set (grid_events g). length row = length [''Monday'', ''Tuesday'']))"
proof -
  have h: "[midnight_event] \<noteq> []" by simp
  from empty_schedule_no_grid [of "[''Monday'', ''Tuesday'']" "[midnight_event]"] h
  show ?thesis by blast
qed

section \<open>Properties of the Record Normalizer\<close>

subsection \<open>Trimmed strings\<close>


lemma dropWhile_fixed:
  assumes "s = [] \<or> \<not> P (hd s)"
  shows "dropWhile P s = s"
  using assms by (cases s) auto






subsection \<open>The renaming\<close>

lemma build_mapping_lookup:
  "build_mapping ls m l =
     (if l \<in> set ls then (case classify l of Some f \<Rightarrow> Some f | None \<Rightarrow> m l) else m l)"
  by (induction ls arbitrary: m) (auto split: option.splits)

lemma column_mapping_target:
  assumes "l \<in> set (labels df)"
  shows "(case column_mapping df l of Some n \<Rightarrow> n | None \<Rightarrow> l) = target_label l"
  using assms
  by (simp add: column_mapping_def build_mapping_lookup target_label_def split: option.splits)

lemma rename_columns_target:
  "rename_columns (column_mapping df) df =
     df\<lparr>cols := map (\<lambda>c. (target_label (fst c), snd c)) (cols df)\<rparr>"
proof -
  have "map (\<lambda>c. (case column_mapping df (fst c) of Some n \<Rightarrow> n | None \<Rightarrow> fst c, snd c)) (cols df) =
        map (\<lambda>c. (target_label (fst c), snd c)) (cols df)"
    by (rule map_cong) (simp_all add: column_mapping_target labels_def)
  then show ?thesis by (simp add: rename_columns_def)
qed

subsection \<open>The missing columns\<close>

lemma nrows_ensure_column [simp]: "nrows (ensure_column f v df) = nrows df"
  by (simp add: ensure_column_def)

lemma cols_ensure_column:
  "cols (ensure_column f v df) =
     cols df @ (if f \<in> set (labels df) then [] else [(f, replicate (nrows df) (Val v))])"
  by (simp add: ensure_column_def)

lemma labels_ensure_column:
  "labels (ensure_column f v df) = labels df @ (if f \<in> set (labels df) then [] else [f])"
  by (simp add: labels_def cols_ensure_column)

lemma nrows_ensure_all [simp]: "nrows (ensure_all fs df) = nrows df"
  by (induction fs arbitrary: df) (simp_all add: ensure_all_def)

lemma cols_ensure_all:
  assumes "distinct (map fst fs)"
  shows "cols (ensure_all fs df) =
     cols df @ map (\<lambda>p. (fst p, replicate (nrows df) (Val (snd p))))
                   (filter (\<lambda>p. fst p \<notin> set (labels df)) fs)"
  using assms
proof (induction fs arbitrary: df)
  case Nil
  then show ?case by (simp add: ensure_all_def)
next
  case (Cons p fs)
  let ?df = "ensure_column (fst p) (snd p) df"
  from Cons.prems have d: "distinct (map fst fs)" and np: "fst p \<notin> fst ` set fs" by simp_all
  have step: "ensure_all (p # fs) df = ensure_all fs ?df" by (simp add: ensure_all_def)
  have same: "filter (\<lambda>q. fst q \<notin> set (labels ?df)) fs = filter (\<lambda>q. fst q \<notin> set (labels df)) fs"
  proof (rule filter_cong)
    fix q
    assume "q \<in> set fs"
    then have "fst q \<in> fst ` set fs" by (rule imageI)
    with np have "fst q \<noteq> fst p" by metis
    then show "(fst q \<notin> set (labels ?df)) = (fst q \<notin> set (labels df))"
      by (simp add: labels_ensure_column)
  qed simp
  show ?case
    unfolding step Cons.IH [OF d] same
    by (simp add: cols_ensure_column)
qed

lemma normalize_dataframe_steps:
  "normalize_dataframe df =
     (let df4 = ensure_all canonical_defaults (rename_columns (column_mapping df) df)
      in clean_loop (labels df4) df4)"
  by (simp add: normalize_dataframe_def ensure_all_def canonical_defaults_def Let_def)

subsection \<open>The cleaning loop\<close>

lemma filter_unique_label:
  assumes "distinct (map g xs)" and "x \<in> set xs"
  shows "filter (\<lambda>y. g y = g x) xs = [x]"
  using assms by (induction xs) (auto simp: filter_empty_conv image_iff)

lemma clean_loop_distinct:
  assumes "distinct (labels df)" and "set ls \<subseteq> set (labels df)" and "distinct ls"
  shows "clean_loop ls df =
     Inr (df\<lparr>cols := map (\<lambda>c. if fst c \<in> set ls then (fst c, map clean_cell (snd c)) else c)
                        (cols df)\<rparr>)"
  using assms
proof (induction ls arbitrary: df)
  case Nil
  then show ?case by simp
next
  case (Cons col rest)
  let ?df = "df\<lparr>cols := map (\<lambda>c. if fst c = col then (fst c, map clean_cell (snd c)) else c)
                            (cols df)\<rparr>"
  from Cons.prems obtain c where c: "c \<in> set (cols df)" "fst c = col"
    by (auto simp: labels_def)
  with Cons.prems(1) have one: "filter (\<lambda>y. fst y = col) (cols df) = [c]"
    using filter_unique_label [of fst "cols df" c] by (simp add: labels_def)
  have lab: "labels ?df = labels df"
    by (simp add: labels_def comp_def if_distrib cong: if_cong)
  from Cons.prems have ih: "clean_loop rest ?df =
     Inr (?df\<lparr>cols := map (\<lambda>c. if fst c \<in> set rest then (fst c, map clean_cell (snd c)) else c)
                        (cols ?df)\<rparr>)"
    by (intro Cons.IH) (simp_all add: lab)
  from Cons.prems(3) have "col \<notin> set rest" by simp
  then have "map (\<lambda>c. if fst c \<in> set rest then (fst c, map clean_cell (snd c)) else c) (cols ?df) =
        map (\<lambda>c. if fst c \<in> set (col # rest) then (fst c, map clean_cell (snd c)) else c) (cols df)"
    by auto
  with one ih show ?case by simp
qed

lemma clean_loop_duplicate:
  assumes "set ls \<subseteq> set (labels df)"
    and "\<exists>l\<in>set ls. 2 \<le> length (filter (\<lambda>c. fst c = l) (cols df))"
  shows "clean_loop ls df = Inl AttributeError"
  using assms
proof (induction ls arbitrary: df)
  case Nil
  then show ?case by simp
next
  case (Cons col rest)
  let ?df = "df\<lparr>cols := map (\<lambda>c. if fst c = col then (fst c, map clean_cell (snd c)) else c)
                            (cols df)\<rparr>"
  from Cons.prems(1) have "filter (\<lambda>c. fst c = col) (cols df) \<noteq> []"
    by (auto simp: labels_def filter_empty_conv)
  then consider c where "filter (\<lambda>c. fst c = col) (cols df) = [c]"
    | c c' cs where "filter (\<lambda>c. fst c = col) (cols df) = c # c' # cs"
    by (cases "filter (\<lambda>c. fst c = col) (cols df)"; cases "tl (filter (\<lambda>c. fst c = col) (cols df))") auto
  then show ?case
  proof cases
    case 1
    have lab: "labels ?df = labels df"
      by (simp add: labels_def comp_def if_distrib cong: if_cong)
    have len: "length (filter (\<lambda>c. fst c = l) (cols ?df)) = length (filter (\<lambda>c. fst c = l) (cols df))" for l
      by (simp add: filter_map comp_def if_distrib cong: if_cong)
    from 1 Cons.prems(2) have "\<exists>l\<in>set rest. 2 \<le> length (filter (\<lambda>c. fst c = l) (cols df))"
      by auto
    then have dup: "\<exists>l\<in>set rest. 2 \<le> length (filter (\<lambda>c. fst c = l) (cols ?df))"
      unfolding len .
    from Cons.prems(1) have sub: "set rest \<subseteq> set (labels ?df)"
      unfolding lab by simp
    from sub dup have "clean_loop rest ?df = Inl AttributeError"
      by (rule Cons.IH)
    with 1 show ?thesis by simp
  next
    case 2
    then show ?thesis by simp
  qed
qed

lemma duplicate_label:
  assumes "\<not> distinct (map g xs)"
  shows "\<exists>x\<in>set xs. 2 \<le> length (filter (\<lambda>y. g y = g x) xs)"
  using assms
proof (induction xs)
  case Nil
  then show ?case by simp
next
  case (Cons a xs)
  show ?case
  proof (cases "g a \<in> g ` set xs")
    case True
    then have "filter (\<lambda>y. g y = g a) xs \<noteq> []"
      by (auto simp: filter_empty_conv)
    then have "1 \<le> length (filter (\<lambda>y. g y = g a) xs)"
      by (cases "filter (\<lambda>y. g y = g a) xs") simp_all
    then show ?thesis by simp
  next
    case False
    with Cons.prems have "\<not> distinct (map g xs)" by simp
    then obtain x where x: "x \<in> set xs" "2 \<le> length (filter (\<lambda>y. g y = g x) xs)"
      using Cons.IH by blast
    have "length (filter (\<lambda>y. g y = g x) xs) \<le> length (filter (\<lambda>y. g y = g x) (a # xs))"
      by simp
    with x(2) have "2 \<le> length (filter (\<lambda>y. g y = g x) (a # xs))"
      by (rule order_trans)
    with x(1) show ?thesis by (intro bexI [of _ x]) simp_all
  qed
qed

lemma clean_loop_labels:
  "clean_loop (labels df) df =
     (if distinct (labels df)
      then Inr (df\<lparr>cols := map (\<lambda>c. (fst c, map clean_cell (snd c))) (cols df)\<rparr>)
      else Inl AttributeError)"
proof (cases "distinct (labels df)")
  case True
  have "map (\<lambda>c. if fst c \<in> set (labels df) then (fst c, map clean_cell (snd c)) else c) (cols df) =
        map (\<lambda>c. (fst c, map clean_cell (snd c))) (cols df)"
    by (rule map_cong) (simp_all add: labels_def)
  with True show ?thesis by (simp add: clean_loop_distinct)
next
  case False
  then obtain c where "c \<in> set (cols df)" "2 \<le> length (filter (\<lambda>y. fst y = fst c) (cols df))"
    using duplicate_label [of fst "cols df"] by (auto simp: labels_def)
  then have "\<exists>l\<in>set (labels df). 2 \<le> length (filter (\<lambda>c. fst c = l) (cols df))"
    by (auto simp: labels_def)
  with False show ?thesis by (simp add: clean_loop_duplicate)
qed

subsection \<open>The normalized table\<close>

lemma distinct_canonical: "distinct (map fst canonical_defaults)"
  by (simp add: canonical_defaults_def)

lemma labels_renamed: "map fst (renamed_cols df) = map target_label (labels df)"
  by (simp add: renamed_cols_def labels_def comp_def)

lemma distinct_missing: "distinct (map fst (missing_cols df))"
proof -
  have "map fst (missing_cols df) =
        filter (\<lambda>f. f \<notin> set (map target_label (labels df))) (map fst canonical_defaults)"
    by (simp add: missing_cols_def filter_map comp_def)
  then show ?thesis using distinct_canonical by simp
qed

lemma missing_disjoint:
  "set (map target_label (labels df)) \<inter> set (map fst (missing_cols df)) = {}"
  by (auto simp: missing_cols_def)

lemma normalize_dataframe_result:
  "normalize_dataframe df =
     (if distinct (map target_label (labels df))
      then Inr (df\<lparr>cols := map (\<lambda>c. (fst c, map clean_cell (snd c)))
                                (renamed_cols df @ missing_cols df)\<rparr>)
      else Inl AttributeError)"
proof -
  let ?df1 = "rename_columns (column_mapping df) df"
  let ?df4 = "ensure_all canonical_defaults ?df1"
  have c1: "cols ?df1 = renamed_cols df"
    by (simp add: rename_columns_target renamed_cols_def)
  have n1: "nrows ?df1 = nrows df"
    by (simp add: rename_columns_target)
  have l1: "labels ?df1 = map target_label (labels df)"
    unfolding labels_def c1 by (simp add: renamed_cols_def comp_def)
  have c4: "cols ?df4 = renamed_cols df @ missing_cols df"
    unfolding cols_ensure_all [OF distinct_canonical] c1 n1 l1 missing_cols_def by (rule refl)
  have l4: "labels ?df4 = map target_label (labels df) @ map fst (missing_cols df)"
    unfolding labels_def c4 by (simp add: labels_renamed labels_def)
  have d4: "distinct (labels ?df4) = distinct (map target_label (labels df))"
    unfolding l4 using distinct_missing [of df] missing_disjoint [of df] by simp
  have r: "?df4\<lparr>cols := map (\<lambda>c. (fst c, map clean_cell (snd c))) (cols ?df4)\<rparr> =
           df\<lparr>cols := map (\<lambda>c. (fst c, map clean_cell (snd c)))
                                (renamed_cols df @ missing_cols df)\<rparr>"
    unfolding c4 by (simp add: ensure_all_def ensure_column_def rename_columns_def canonical_defaults_def)
  have "normalize_dataframe df = clean_loop (labels ?df4) ?df4"
    by (simp add: normalize_dataframe_steps Let_def)
  also have "\<dots> = (if distinct (labels ?df4)
      then Inr (?df4\<lparr>cols := map (\<lambda>c. (fst c, map clean_cell (snd c))) (cols ?df4)\<rparr>)
      else Inl AttributeError)"
    by (rule clean_loop_labels)
  finally show ?thesis unfolding d4 r .
qed


lemma classify_canonical:
  assumes "f \<in> set canonical_fields"
  shows "classify f = Some f"
proof -
  have "\<forall>g\<in>set canonical_fields. classify g = Some g" by code_simp
  with assms show ?thesis by blast
qed






subsection \<open>The rows of the normalized table\<close>

lemma normalize_dataframe_Inr:
  assumes "normalize_dataframe df = Inr df'"
  shows "distinct (map target_label (labels df))"
    and "df' = df\<lparr>cols := map (\<lambda>c. (fst c, map clean_cell (snd c)))
                                (renamed_cols df @ missing_cols df)\<rparr>"
  using assms by (auto simp: normalize_dataframe_result split: if_splits)










subsection \<open>The claims on the Record Normalizer\<close>


lemma nth_cols_normalized:
  assumes n: "normalize_dataframe df = Inr df'" and i: "i < length (cols df)"
  shows "cols df' ! i =
     (target_label (fst (cols df ! i)), map clean_cell (snd (cols df ! i)))"
proof -
  from i have el: "(renamed_cols df @ missing_cols df) ! i =
      (target_label (fst (cols df ! i)), snd (cols df ! i))"
    by (simp add: renamed_cols_def nth_append)
  from i have len: "i < length (renamed_cols df @ missing_cols df)"
    by (simp add: renamed_cols_def)
  have "cols df' = map (\<lambda>c. (fst c, map clean_cell (snd c))) (renamed_cols df @ missing_cols df)"
    unfolding normalize_dataframe_Inr(2) [OF n] by (simp del: map_append)
  then have "cols df' ! i =
      (\<lambda>c. (fst c, map clean_cell (snd c))) ((renamed_cols df @ missing_cols df) ! i)"
    using len by (simp only: nth_map)
  with el show ?thesis by simp
qed





text \<open>
  Claim C8, as the program has it.  A column whose label no keyword rule matches is not
  dropped.  When \<^verbatim>\<open>normalize_dataframe\<close> returns a table, the column stands in it at the
  position and under the label it had, with every value cleaned to a trimmed string.
  Its label is none of the six standard labels, which are the only ones the Grid Builder
  and the Export Table Builder read from a row.
\<close>


theorem unmatched_column_kept:
  assumes "normalize_dataframe df = Inr df'"
    and "i < length (cols df)"
    and "classify (fst (cols df ! i)) = None"
  shows "cols df' ! i = (fst (cols df ! i), map clean_cell (snd (cols df ! i))) \<and>
         (fst (cols df ! i), map clean_cell (snd (cols df ! i))) \<in> set (cols df') \<and>
         fst (cols df ! i) \<notin> set canonical_fields \<and>
         ev_get e (fst (cols df ! i)) = None"
proof -
  from assms(3) have t: "target_label (fst (cols df ! i)) = fst (cols df ! i)"
    by (simp add: target_label_def)
  have 1: "cols df' ! i = (fst (cols df ! i), map clean_cell (snd (cols df ! i)))"
    using nth_cols_normalized [OF assms(1,2)] t by simp
  from assms(2) have "i < length (cols df')"
    unfolding normalize_dataframe_Inr(2) [OF assms(1)] by (simp add: renamed_cols_def)
  then have "cols df' ! i \<in> set (cols df')" by (rule nth_mem)
  with 1 have 2: "(fst (cols df ! i), map clean_cell (snd (cols df ! i))) \<in> set (cols df')"
    by simp
  have 3: "fst (cols df ! i) \<notin> set canonical_fields"
    using classify_canonical [of "fst (cols df ! i)"] assms(3) by auto
  then have 4: "ev_get e (fst (cols df ! i)) = None"
    by (simp add: ev_get_def canonical_fields_def canonical_defaults_def)
  from 1 2 3 4 show ?thesis by blast
qed


theorem unmatched_column_kept_witness:
  "normalize_dataframe room_table = Inr room_normalized \<and>
   2 < length (cols room_table) \<and>
   classify (fst (cols room_table ! 2)) = None \<and>
   cols room_normalized ! 2 =
     (fst (cols room_table ! 2), map clean_cell (snd (cols room_table ! 2)))"
proof -
  have h1: "normalize_dataframe room_table = Inr room_normalized" by code_simp
  have h2: "2 < length (cols room_table)" by code_simp
  have h3: "classify (fst (cols room_table ! 2)) = None" by code_simp
  from unmatched_column_kept [OF h1 h2 h3] h1 h2 h3 show ?thesis by blast
qed


theorem unmatched_column_dropped_counterexample:
  "classify ''Room'' = None \<and>
   (''Room'', [Val ''B12 '', Val ''C3'']) \<in> set (cols room_table) \<and>
   normalize_dataframe room_table = Inr room_normalized \<and>
   (''Room'', [Val ''B12'', Val ''C3'']) \<in> set (cols room_normalized)"
  by code_simp


text \<open>
  Two columns for one field.  When two columns of the input are mapped to the same standard
  field, the renaming gives both that label and leaves each where it stood, with its own
  values: nothing is overwritten, the table has as many columns as before, and the label
  stands in it twice.  The cleaning loop then raises, so that no table is returned.
\<close>

lemma rename_keeps_both_columns:
  assumes "i < j" and "j < length (cols df)"
    and "classify (fst (cols df ! i)) = Some f"
    and "classify (fst (cols df ! j)) = Some f"
  shows "length (cols (rename_columns (column_mapping df) df)) = length (cols df) \<and>
         cols (rename_columns (column_mapping df) df) ! i = (f, snd (cols df ! i)) \<and>
         cols (rename_columns (column_mapping df) df) ! j = (f, snd (cols df ! j)) \<and>
         \<not> distinct (labels (rename_columns (column_mapping df) df))"
proof -
  let ?r = "rename_columns (column_mapping df) df"
  have c: "cols ?r = map (\<lambda>c. (target_label (fst c), snd c)) (cols df)"
    by (simp add: rename_columns_target)
  from assms(1,2) have i: "i < length (cols df)" by simp
  have 1: "length (cols ?r) = length (cols df)" unfolding c by simp
  from i assms(3) have 2: "cols ?r ! i = (f, snd (cols df ! i))"
    unfolding c by (simp add: target_label_def)
  from assms(2,4) have 3: "cols ?r ! j = (f, snd (cols df ! j))"
    unfolding c by (simp add: target_label_def)
  have "labels ?r ! i = labels ?r ! j"
    unfolding labels_def using i assms(2) 1 2 3 by simp
  moreover have "i < length (labels ?r)" "j < length (labels ?r)" "i \<noteq> j"
    using i assms(1,2) 1 by (simp_all add: labels_def)
  ultimately have 4: "\<not> distinct (labels ?r)"
    by (auto simp: distinct_conv_nth)
  from 1 2 3 4 show ?thesis by blast
qed


lemma rename_keeps_both_columns_example:
  "(1::nat) < 2 \<and> 2 < length (cols notes_table) \<and>
   classify (fst (cols notes_table ! 1)) = Some ''notes'' \<and>
   classify (fst (cols notes_table ! 2)) = Some ''notes'' \<and>
   cols (rename_columns (column_mapping notes_table) notes_table) ! 1 =
     (''notes'', snd (cols notes_table ! 1)) \<and>
   cols (rename_columns (column_mapping notes_table) notes_table) ! 2 =
     (''notes'', snd (cols notes_table ! 2))"
proof -
  have h1: "(1::nat) < 2" by simp
  have h2: "2 < length (cols notes_table)" by code_simp
  have h3: "classify (fst (cols notes_table ! 1)) = Some ''notes''" by code_simp
  have h4: "classify (fst (cols notes_table ! 2)) = Some ''notes''" by code_simp
  from rename_keeps_both_columns [OF h1 h2 h3 h4] h1 h2 h3 h4 show ?thesis by blast
qed


lemma duplicate_field_raises:
  assumes "i < j" and "j < length (cols df)"
    and "classify (fst (cols df ! i)) = Some f"
    and "classify (fst (cols df ! j)) = Some f"
  shows "normalize_dataframe df = Inl AttributeError"
proof -
  from rename_keeps_both_columns [OF assms]
  have "\<not> distinct (labels (rename_columns (column_mapping df) df))" by blast
  moreover have "labels (rename_columns (column_mapping df) df) = map target_label (labels df)"
    by (simp add: rename_columns_target labels_def comp_def)
  ultimately have "\<not> distinct (map target_label (labels df))" by simp
  then show ?thesis by (simp add: normalize_dataframe_result)
qed

text \<open>
  Claim C9, at \<^const>\<open>notes_table\<close>, whose columns \<^verbatim>\<open>Notes\<close> and \<^verbatim>\<open>Details\<close> are both mapped to
  \<^verbatim>\<open>notes\<close>.  After the renaming both columns stand in the table under that label, each with
  its own value: the later one has not overwritten the earlier one.  \<^verbatim>\<open>normalize_dataframe\<close>
  then raises \<^verbatim>\<open>AttributeError\<close> in its cleaning loop and returns no table, so the row has
  no value for any field; on \<^const>\<open>room_table\<close>, where no two columns share a field, the same
  loop returns the table.
\<close>

theorem two_notes_columns_raise:
  "classify ''Notes'' = Some ''notes'' \<and> classify ''Details'' = Some ''notes'' \<and>
   cols (rename_columns (column_mapping notes_table) notes_table) =
     [(''day'', [Val ''Monday'']), (''notes'', [Val ''bring book'']), (''notes'', [Val ''room 4''])] \<and>
   normalize_dataframe notes_table = Inl AttributeError \<and>
   normalize_dataframe room_table = Inr room_normalized"
  by code_simp

end
